theory Spec2Isabelle
  imports Complex_Main "HOL-Library.Word"
begin

section \<open>JavaScript values used by lib/vesting.js\<close>

text \<open>
  The file lib/vesting.js is present in two variants. The first one (lines 1-438) reads the
  schedule with \<^verbatim>\<open>getSchedule(beneficiary, token)\<close>, a tuple of five \<^verbatim>\<open>uint256\<close>
  \<^verbatim>\<open>(totalAmount, released, releasable, startTime, endTime)\<close>. The second one
  (lines 439-793) reads it with \<^verbatim>\<open>schedules(token, beneficiary)\<close>, a tuple of four
  \<^verbatim>\<open>uint256\<close> \<^verbatim>\<open>(totalAmount, releasedAmount, startTime, duration)\<close>. Definitions of the
  first variant end in \<open>1\<close>, those of the second in \<open>2\<close>.

  A \<^verbatim>\<open>BigInt\<close> is an \<^typ>\<open>int\<close>; a \<^verbatim>\<open>uint256\<close> of the contract is a \<^typ>\<open>256 word\<close>,
  read as a \<^verbatim>\<open>BigInt\<close> with \<^const>\<open>uint\<close>. A thrown \<^verbatim>\<open>Error\<close> is a value: its name and its
  message.
\<close>

type_synonym uint256 = "256 word"
type_synonym uint8 = "8 word"

datatype js_error = JsError (err_name: string) (err_message: string)

definition RangeError_division :: js_error where
  "RangeError_division = JsError ''RangeError'' ''Division by zero''"

text \<open>\<^verbatim>\<open>a / b\<close> on BigInt: throws on a zero divisor, and truncates toward zero otherwise.\<close>

definition bigint_div :: "int \<Rightarrow> int \<Rightarrow> js_error + int" where
  "bigint_div a b =
     (if b = 0 then Inl RangeError_division
      else Inr (sgn a * sgn b * (\<bar>a\<bar> div \<bar>b\<bar>)))"

section \<open>The vested amount\<close>

text \<open>
  First variant, lines 117-126 of getVestingInfo:
  \<^verbatim>\<open>
    const durationBig = endTime - startTime;
    let vestedAmount;
    if (now >= endTime) { vestedAmount = totalAmount; }
    else if (now <= startTime) { vestedAmount = 0n; }
    else { vestedAmount = (totalAmount * (now - startTime)) / durationBig; }
  \<close>
\<close>

definition vestedAmount1 :: "int \<Rightarrow> int \<Rightarrow> int \<Rightarrow> int \<Rightarrow> js_error + int" where
  "vestedAmount1 totalAmount startTime endTime now =
     (let durationBig = endTime - startTime in
      if now \<ge> endTime then Inr totalAmount
      else if now \<le> startTime then Inr 0
      else bigint_div (totalAmount * (now - startTime)) durationBig)"

text \<open>
  Second variant, lines 528-539 of getVestingInfo and 689-700 of claimVestedTokens:
  \<^verbatim>\<open>
    const startTimeBig = BigInt(startTime);
    const durationBig = BigInt(duration);
    const endTime = startTimeBig + durationBig;
    let vestedAmount;
    if (now >= endTime) { vestedAmount = totalAmount; }
    else if (now <= startTimeBig) { vestedAmount = 0n; }
    else { vestedAmount = (totalAmount * (now - startTimeBig)) / durationBig; }
  \<close>
\<close>

definition vestedAmount2 :: "int \<Rightarrow> int \<Rightarrow> int \<Rightarrow> int \<Rightarrow> js_error + int" where
  "vestedAmount2 totalAmount startTime duration now =
     (let startTimeBig = startTime;
          durationBig = duration;
          endTime = startTimeBig + durationBig in
      if now \<ge> endTime then Inr totalAmount
      else if now \<le> startTimeBig then Inr 0
      else bigint_div (totalAmount * (now - startTimeBig)) durationBig)"

text \<open>
  The quotient the specification names: the exact rational, truncated toward zero. It is the
  yardstick for \<^const>\<open>bigint_div\<close>, not a part of the program.
\<close>

definition truncate_toward_zero :: "rat \<Rightarrow> int" where
  "truncate_toward_zero x = (if 0 \<le> x then \<lfloor>x\<rfloor> else \<lceil>x\<rceil>)"

section \<open>Numbers: IEEE-754 binary64\<close>

text \<open>
  A finite JavaScript Number is the rational it denotes. Every arithmetic operation rounds the
  exact result to the nearest double, ties to the even significand. Overflow to
  \<^verbatim>\<open>Infinity\<close> needs a magnitude of \<open>2 ^ 1024\<close>; the Numbers of this program come from
  \<^verbatim>\<open>uint256\<close> values and stay below \<open>2 ^ 267\<close>, so it is left out.
\<close>

text \<open>The number of binary digits of a positive integer.\<close>

function bitlen :: "int \<Rightarrow> int" where
  "bitlen k = (if k \<le> 0 then 0 else 1 + bitlen (k div 2))"
  by pat_completeness auto
termination
  by (relation "measure nat") auto

declare bitlen.simps [simp del]

text \<open>The binary exponent \<open>\<lfloor>log\<^sub>2 x\<rfloor>\<close> of a positive rational.\<close>

definition floor_log2 :: "rat \<Rightarrow> int" where
  "floor_log2 x =
     (if 1 \<le> x then bitlen \<lfloor>x\<rfloor> - 1
      else - bitlen (\<lceil>1 / x\<rceil> - 1))"

definition round_half_even :: "rat \<Rightarrow> int" where
  "round_half_even x =
     (let f = \<lfloor>x\<rfloor>; r = x - of_int f in
      if r < 1 / 2 then f
      else if 1 / 2 < r then f + 1
      else if even f then f else f + 1)"

definition to_double :: "rat \<Rightarrow> rat" where
  "to_double x =
     (if x = 0 then 0
      else let e = max (floor_log2 \<bar>x\<bar>) (- 1022);
               ulp = 2 powi (e - 52)
           in of_int (round_half_even (x / ulp)) * ulp)"

definition js_add :: "rat \<Rightarrow> rat \<Rightarrow> rat" where
  "js_add a b = to_double (a + b)"

definition js_sub :: "rat \<Rightarrow> rat \<Rightarrow> rat" where
  "js_sub a b = to_double (a - b)"

definition js_mul :: "rat \<Rightarrow> rat \<Rightarrow> rat" where
  "js_mul a b = to_double (a * b)"

text \<open>\<^verbatim>\<open>a / b\<close> on Numbers; \<open>None\<close> is a result that is not finite (a zero divisor).\<close>

definition js_divide :: "rat \<Rightarrow> rat \<Rightarrow> rat option" where
  "js_divide a b = (if b = 0 then None else Some (to_double (a / b)))"

text \<open>
  \<^verbatim>\<open>Number(n)\<close> of a BigInt, and \<^verbatim>\<open>parseInt(n.toString(), 10)\<close>: the double nearest to the
  integer. (\<^verbatim>\<open>parseInt\<close> may round a text of more than 20 digits otherwise; no timestamp of a
  real schedule is that long.) An integer up to \<open>2 ^ 53\<close> in magnitude is the Number itself,
  which is why the result of \<^verbatim>\<open>Math.floor(Date.now() / 1000)\<close> goes through it unchanged.
\<close>

definition Number_of_bigint :: "int \<Rightarrow> rat" where
  "Number_of_bigint n = to_double (of_int n)"

text \<open>
  \<^verbatim>\<open>new Date(t).toISOString()\<close>: the time value the ISO text denotes, in milliseconds, and a
  \<^verbatim>\<open>RangeError\<close> outside the range of \<^verbatim>\<open>Date\<close>.
\<close>

definition toISOString :: "rat \<Rightarrow> js_error + int" where
  "toISOString t =
     (if \<bar>t\<bar> \<le> 8640000000000000 then Inr (truncate_toward_zero t)
      else Inl (JsError ''RangeError'' ''Invalid time value''))"

section \<open>Strings\<close>

text \<open>\<^verbatim>\<open>s.includes(t)\<close>.\<close>

fun js_includes :: "string \<Rightarrow> string \<Rightarrow> bool" where
  "js_includes [] t = (t = [])"
| "js_includes (c # cs) t = (take (length t) (c # cs) = t \<or> js_includes cs t)"

text \<open>\<^verbatim>\<open>String(err)\<close> of an \<^verbatim>\<open>Error\<close>.\<close>

definition js_String :: "js_error \<Rightarrow> string" where
  "js_String err =
     (if err_name err = [] then err_message err
      else if err_message err = [] then err_name err
      else err_name err @ '': '' @ err_message err)"





section \<open>Formatting amounts\<close>


text \<open>
  The value \<^verbatim>\<open>decimals()\<close> of the token resolves to: a Number or a BigInt, as the ledger
  client library hands it over. The first variant accepts both (lines 77-80).
\<close>

datatype decimals_value = DecimalsNumber nat | DecimalsBigInt nat

definition decimalsNum_of :: "decimals_value \<Rightarrow> nat" where
  "decimalsNum_of decimals = (case decimals of DecimalsBigInt d \<Rightarrow> d | DecimalsNumber d \<Rightarrow> d)"

text \<open>
  \<^verbatim>\<open>Math.pow(10, d)\<close>. The powers of ten up to \<open>10 ^ 22\<close> are doubles, and \<^verbatim>\<open>Math.pow\<close>
  returns them as they are. A larger power is no double, and which double near it
  \<^verbatim>\<open>Math.pow\<close> returns is up to the implementation (not always the nearest one): \<open>None\<close>,
  a Number that is not determined here.
\<close>

definition Math_pow10 :: "nat \<Rightarrow> rat option" where
  "Math_pow10 d = (if d \<le> 22 then Some (10 ^ d) else None)"

text \<open>
  Second variant, line 548 of formatAmount (and 715):
  \<^verbatim>\<open>const formatted = Number(amount) / Math.pow(10, decimals);\<close>
  \<^verbatim>\<open>Math.pow\<close> converts its arguments to Numbers, which throws a \<^verbatim>\<open>TypeError\<close> on a BigInt.
  The result is the Number \<^verbatim>\<open>formatted\<close>, or \<open>None\<close> where it is not determined here; its
  rendering, which follows, is not modelled.
\<close>

definition formatAmount2 :: "decimals_value \<Rightarrow> int \<Rightarrow> js_error + rat option" where
  "formatAmount2 decimals amount =
     (case decimals of
        DecimalsBigInt d \<Rightarrow> Inl (JsError ''TypeError'' ''Cannot convert a BigInt value to a number'')
      | DecimalsNumber d \<Rightarrow>
          Inr (case Math_pow10 d of
                 None \<Rightarrow> None
               | Some tenPower \<Rightarrow> js_divide (Number_of_bigint amount) tenPower))"





section \<open>Progress\<close>

text \<open>
  First variant, lines 160-186 of getVestingInfo, the percentage only:
  \<^verbatim>\<open>
    const nowNum = Math.floor(Date.now() / 1000);
    const startTimeNum = parseInt(startTime.toString(), 10);
    const endTimeNum = parseInt(endTime.toString(), 10);
    const durationNum = endTimeNum - startTimeNum;
    if (nowNum >= endTimeNum) { vestingProgress = 100; }
    else if (nowNum <= startTimeNum) { vestingProgress = 0; }
    else { vestingProgress = Math.floor(((nowNum - startTimeNum) / durationNum) * 100); }
  \<close>
  All of it is arithmetic on Numbers. \<open>None\<close> is a percentage that is not a finite number.
\<close>

definition vestingProgress1 :: "int \<Rightarrow> int \<Rightarrow> int \<Rightarrow> int option" where
  "vestingProgress1 nowSeconds startTime endTime =
     (let nowNum = Number_of_bigint nowSeconds;
          startTimeNum = Number_of_bigint startTime;
          endTimeNum = Number_of_bigint endTime;
          durationNum = js_sub endTimeNum startTimeNum in
      if nowNum \<ge> endTimeNum then Some 100
      else if nowNum \<le> startTimeNum then Some 0
      else map_option (\<lambda>q. \<lfloor>js_mul q 100\<rfloor>)
             (js_divide (js_sub nowNum startTimeNum) durationNum))"

text \<open>
  Second variant, lines 556-577 of getVestingInfo:
  \<^verbatim>\<open>
    const startTimeNum = Number(startTime);
    const durationNum = Number(duration);
    const endTimeNum = startTimeNum + durationNum;
  \<close>
  and the same three branches.
\<close>

definition vestingProgress2 :: "int \<Rightarrow> int \<Rightarrow> int \<Rightarrow> int option" where
  "vestingProgress2 nowSeconds startTime duration =
     (let nowNum = Number_of_bigint nowSeconds;
          startTimeNum = Number_of_bigint startTime;
          durationNum = Number_of_bigint duration;
          endTimeNum = js_add startTimeNum durationNum in
      if nowNum \<ge> endTimeNum then Some 100
      else if nowNum \<le> startTimeNum then Some 0
      else map_option (\<lambda>q. \<lfloor>js_mul q 100\<rfloor>)
             (js_divide (js_sub nowNum startTimeNum) durationNum))"


section \<open>Collaborators, failures and results\<close>

text \<open>
  What a call finds outside lib/vesting.js: the wallet store (wallet.js), the address check
  of the ledger client library, the token contract, the vesting manager and the clock. A
  contract call that throws is \<open>Inl\<close> of the error. The schedule tuple \<open>'s\<close> differs between
  the variants; \<open>fetchSchedule\<close> takes the beneficiary first, then the token, in both.
  \<open>secondsNow k\<close> is what the \<open>k\<close>-th evaluation of \<^verbatim>\<open>Math.floor(Date.now() / 1000)\<close> in a call
  yields. \<open>getDecryptedWallet\<close> answers the text of its failure or the address of the
  unlocked wallet; \<open>waitReceipt\<close> answers the hash and the block number of the receipt.

  The functions of wallet.js and the constructors of the provider and of the contract
  objects are taken not to throw, and a thrown value is taken to be an \<^verbatim>\<open>Error\<close> with a
  message.
\<close>

record 's world =
  getWalletAddress :: "bool \<times> string option"
  hasWallet :: bool
  getDecryptedWallet :: "string \<Rightarrow> string + string"
  isAddress :: "string \<Rightarrow> bool"
  tokenMetadata :: "string \<Rightarrow> (string \<times> string \<times> decimals_value) option"
  fetchSchedule :: "string \<Rightarrow> string \<Rightarrow> js_error + 's"
  secondsNow :: "nat \<Rightarrow> int"
  release :: "string \<Rightarrow> string \<Rightarrow> js_error + unit"
  waitReceipt :: "js_error + string \<times> nat"
  balanceOf :: "string \<Rightarrow> string \<Rightarrow> js_error + uint256"

type_synonym schedule1 = "uint256 \<times> uint256 \<times> uint256 \<times> uint256 \<times> uint256"
type_synonym schedule2 = "uint256 \<times> uint256 \<times> uint256 \<times> uint256"

text \<open>
  The failures the functions return as \<^verbatim>\<open>{success: false, error: ...}\<close>, and their texts. The
  fields that only repeat the arguments (token address, beneficiary, contract address) are
  left out. \<open>WalletFailure\<close> is the failure object of wallet.js, which claimVestedTokens
  returns as it is.
\<close>

datatype failure =
    NoWallet
  | InvalidTokenAddress
  | ScheduleFetchFailed string
  | ScheduleNotFound
  | NoScheduleForPair
  | GetInfoFailed string
  | WalletFailure string
  | ClaimScheduleNotFound
  | NothingToClaim
  | InvalidPassword
  | TransactionReverted
  | ClaimFailed string
  | InvalidInput

fun error_text :: "failure \<Rightarrow> string" where
  "error_text NoWallet = ''No wallet found. Create a wallet first.''"
| "error_text InvalidTokenAddress = ''Invalid token address''"
| "error_text (ScheduleFetchFailed m) = ''Failed to fetch vesting schedule: '' @ m"
| "error_text ScheduleNotFound =
     ''No vesting schedule found for this token. The vesting schedule may not have been created yet.''"
| "error_text NoScheduleForPair =
     ''No vesting schedule found for this token and wallet combination''"
| "error_text (GetInfoFailed m) = ''Failed to get vesting info: '' @ m"
| "error_text (WalletFailure m) = m"
| "error_text ClaimScheduleNotFound = ''No vesting schedule found for this token.''"
| "error_text NothingToClaim =
     ''No tokens available to claim. All vested tokens have already been claimed.''"
| "error_text InvalidPassword = ''Invalid password''"
| "error_text TransactionReverted =
     ''Transaction reverted. No vesting schedule may exist or no tokens are available to claim.''"
| "error_text (ClaimFailed m) = ''Claim failed: '' @ m"
| "error_text InvalidInput = ''Token addresses array is required''"

datatype 'a result = Failure failure | Success 'a

text \<open>
  The success object of getVestingInfo. The \<^verbatim>\<open>raw\<close> amounts are the decimal texts of BigInts,
  kept as the integers they denote; \<open>startTime_ms\<close> and \<open>endTime_ms\<close> stand for the ISO texts.
  The display texts of the amounts and the time-remaining label are left out.
\<close>

record vesting_info =
  token_address :: string
  token_name :: string
  token_symbol :: string
  token_decimals :: nat
  info_beneficiary :: string
  progress :: "int option"
  startTime_ms :: int
  endTime_ms :: int
  raw_totalAmount :: int
  raw_releasedAmount :: int
  raw_releasableAmount :: int
  raw_lockedAmount :: int

section \<open>getVestingInfo\<close>

text \<open>First variant, lines 215-235: the handler of the outer \<^verbatim>\<open>try\<close>.\<close>

definition getVestingInfo_catch1 :: "js_error \<Rightarrow> failure" where
  "getVestingInfo_catch1 err =
     (if err_message err \<noteq> []
         \<and> (js_includes (err_message err) ''execution reverted''
              \<or> js_includes (err_message err) ''call revert'')
      then NoScheduleForPair
      else GetInfoFailed (if err_message err \<noteq> [] then err_message err else js_String err))"

text \<open>First variant, lines 34-236.\<close>

definition getVestingInfo1 :: "schedule1 world \<Rightarrow> string \<Rightarrow> vesting_info result" where
  "getVestingInfo1 w tokenAddress =
     (case getWalletAddress w of
        (success, None) \<Rightarrow> Failure NoWallet
      | (success, Some beneficiary) \<Rightarrow>
          if \<not> success \<or> beneficiary = [] then Failure NoWallet
          else if tokenAddress = [] \<or> \<not> isAddress w tokenAddress then Failure InvalidTokenAddress
          else
            (case (case tokenMetadata w tokenAddress of
                     Some m \<Rightarrow> m
                   | None \<Rightarrow> (''Unknown'', ''UNKNOWN'', DecimalsBigInt 18)) of
               (tokenName, tokenSymbol, decimals) \<Rightarrow>
            let decimalsNum = decimalsNum_of decimals in
            (case fetchSchedule w beneficiary tokenAddress of
               Inl scheduleErr \<Rightarrow> Failure (ScheduleFetchFailed (err_message scheduleErr))
             | Inr (s0, s1, s2, s3, s4) \<Rightarrow>
                 let totalAmount = uint s0;
                     releasedAmount = uint s1;
                     releasableAmount = uint s2;
                     startTime = uint s3;
                     endTime = uint s4 in
                 if totalAmount = 0 then Failure ScheduleNotFound
                 else
                   let now = secondsNow w 0 in
                   (case vestedAmount1 totalAmount startTime endTime now of
                      Inl err \<Rightarrow> Failure (getVestingInfo_catch1 err)
                    | Inr vestedAmount \<Rightarrow>
                        let releasable = releasableAmount;
                            unreleased = totalAmount - vestedAmount;
                            nowNum = secondsNow w 1;
                            vestingProgress = vestingProgress1 nowNum startTime endTime in
                        (case toISOString (js_mul (Number_of_bigint startTime) 1000) of
                           Inl err \<Rightarrow> Failure (getVestingInfo_catch1 err)
                         | Inr startIso \<Rightarrow>
                        (case toISOString (js_mul (Number_of_bigint endTime) 1000) of
                           Inl err \<Rightarrow> Failure (getVestingInfo_catch1 err)
                         | Inr endIso \<Rightarrow>
                             Success \<lparr>token_address = tokenAddress,
                                      token_name = tokenName,
                                      token_symbol = tokenSymbol,
                                      token_decimals = decimalsNum,
                                      info_beneficiary = beneficiary,
                                      progress = vestingProgress,
                                      startTime_ms = startIso,
                                      endTime_ms = endIso,
                                      raw_totalAmount = totalAmount,
                                      raw_releasedAmount = releasedAmount,
                                      raw_releasableAmount = releasable,
                                      raw_lockedAmount = unreleased\<rparr>))))))"

text \<open>Second variant, lines 607-622: the handler of the \<^verbatim>\<open>try\<close>.\<close>

definition getVestingInfo_catch2 :: "js_error \<Rightarrow> failure" where
  "getVestingInfo_catch2 err =
     (if js_includes (err_message err) ''execution reverted''
         \<or> js_includes (err_message err) ''call revert''
      then NoScheduleForPair
      else GetInfoFailed (err_message err))"

text \<open>
  Second variant, lines 469-623. The schedule is read inside the \<^verbatim>\<open>try\<close>, without a handler of
  its own; the four calls of formatAmount come before the two dates in the success object.
\<close>

definition getVestingInfo2 :: "schedule2 world \<Rightarrow> string \<Rightarrow> vesting_info result" where
  "getVestingInfo2 w tokenAddress =
     (case getWalletAddress w of
        (success, None) \<Rightarrow> Failure NoWallet
      | (success, Some beneficiary) \<Rightarrow>
          if \<not> success \<or> beneficiary = [] then Failure NoWallet
          else if tokenAddress = [] \<or> \<not> isAddress w tokenAddress then Failure InvalidTokenAddress
          else
            (case (case tokenMetadata w tokenAddress of
                     Some m \<Rightarrow> m
                   | None \<Rightarrow> (''Unknown'', ''UNKNOWN'', DecimalsNumber 18)) of
               (tokenName, tokenSymbol, decimals) \<Rightarrow>
            (case fetchSchedule w beneficiary tokenAddress of
               Inl err \<Rightarrow> Failure (getVestingInfo_catch2 err)
             | Inr (s0, s1, s2, s3) \<Rightarrow>
                 let totalAmount = uint s0;
                     releasedAmount = uint s1;
                     startTime = uint s2;
                     duration = uint s3 in
                 if totalAmount = 0 then Failure ScheduleNotFound
                 else
                   let now = secondsNow w 0 in
                   (case vestedAmount2 totalAmount startTime duration now of
                      Inl err \<Rightarrow> Failure (getVestingInfo_catch2 err)
                    | Inr vestedAmount \<Rightarrow>
                        let releasable = vestedAmount - releasedAmount;
                            unreleased = totalAmount - vestedAmount;
                            nowNum = secondsNow w 1;
                            vestingProgress = vestingProgress2 nowNum startTime duration;
                            startTimeNum = Number_of_bigint startTime;
                            endTimeNum = js_add startTimeNum (Number_of_bigint duration) in
                        (case formatAmount2 decimals totalAmount of
                           Inl err \<Rightarrow> Failure (getVestingInfo_catch2 err)
                         | Inr f0 \<Rightarrow>
                        (case formatAmount2 decimals releasedAmount of
                           Inl err \<Rightarrow> Failure (getVestingInfo_catch2 err)
                         | Inr f1 \<Rightarrow>
                        (case formatAmount2 decimals releasable of
                           Inl err \<Rightarrow> Failure (getVestingInfo_catch2 err)
                         | Inr f2 \<Rightarrow>
                        (case formatAmount2 decimals unreleased of
                           Inl err \<Rightarrow> Failure (getVestingInfo_catch2 err)
                         | Inr f3 \<Rightarrow>
                        (case toISOString (js_mul startTimeNum 1000) of
                           Inl err \<Rightarrow> Failure (getVestingInfo_catch2 err)
                         | Inr startIso \<Rightarrow>
                        (case toISOString (js_mul endTimeNum 1000) of
                           Inl err \<Rightarrow> Failure (getVestingInfo_catch2 err)
                         | Inr endIso \<Rightarrow>
                             Success \<lparr>token_address = tokenAddress,
                                      token_name = tokenName,
                                      token_symbol = tokenSymbol,
                                      token_decimals = decimalsNum_of decimals,
                                      info_beneficiary = beneficiary,
                                      progress = vestingProgress,
                                      startTime_ms = startIso,
                                      endTime_ms = endIso,
                                      raw_totalAmount = totalAmount,
                                      raw_releasedAmount = releasedAmount,
                                      raw_releasableAmount = releasable,
                                      raw_lockedAmount = unreleased\<rparr>))))))))))"


section \<open>claimVestedTokens\<close>

text \<open>
  The calls a claim makes on the ledger, in their order. \<open>SubmitRelease\<close> is the only one that
  changes the state of the chain.
\<close>

datatype ledger_call =
    ReadTokenMetadata string
  | ReadSchedule string string
  | SubmitRelease string string
  | AwaitConfirmation
  | ReadBalance string string

text \<open>The success object of claimVestedTokens, its display texts left out.\<close>

record claim_info =
  claim_token_address :: string
  claim_token_name :: string
  claim_token_symbol :: string
  claimed_rawAmount :: int
  transaction_hash :: string
  transaction_blockNumber :: nat
  newBalance_raw :: int

text \<open>Lines 381-406 and 746-764: the handler of the \<^verbatim>\<open>try\<close>, the same in both variants.\<close>

definition claimVestedTokens_catch :: "js_error \<Rightarrow> failure" where
  "claimVestedTokens_catch err =
     (if js_includes (err_message err) ''Unsupported state''
         \<or> js_includes (err_message err) ''auth''
      then InvalidPassword
      else if js_includes (err_message err) ''execution reverted''
         \<or> js_includes (err_message err) ''call revert''
      then TransactionReverted
      else ClaimFailed (err_message err))"

text \<open>
  First variant, lines 241-407. The releasable amount is the one the contract reports
  (line 325).
\<close>

definition claimVestedTokens1 ::
  "schedule1 world \<Rightarrow> string \<Rightarrow> string \<Rightarrow> claim_info result \<times> ledger_call list" where
  "claimVestedTokens1 w password tokenAddress =
     (if \<not> hasWallet w then (Failure NoWallet, [])
      else if tokenAddress = [] \<or> \<not> isAddress w tokenAddress
      then (Failure InvalidTokenAddress, [])
      else
        (case getDecryptedWallet w password of
           Inl walletError \<Rightarrow> (Failure (WalletFailure walletError), [])
         | Inr address \<Rightarrow>
            (case (case tokenMetadata w tokenAddress of
                     Some m \<Rightarrow> m
                   | None \<Rightarrow> (''Unknown'', ''UNKNOWN'', DecimalsBigInt 18)) of
               (tokenName, tokenSymbol, decimals) \<Rightarrow>
            let decimalsNum = decimalsNum_of decimals;
                calls1 = [ReadTokenMetadata tokenAddress, ReadSchedule address tokenAddress] in
            (case fetchSchedule w address tokenAddress of
               Inl scheduleErr \<Rightarrow>
                 (Failure (ScheduleFetchFailed (err_message scheduleErr)), calls1)
             | Inr (s0, s1, s2, s3, s4) \<Rightarrow>
                 let totalAmount = uint s0;
                     releasedAmount = uint s1;
                     releasableFromContract = uint s2;
                     startTime = uint s3;
                     endTime = uint s4 in
                 if totalAmount = 0 then (Failure ClaimScheduleNotFound, calls1)
                 else
                   let releasable = releasableFromContract in
                   if releasable \<le> 0 then (Failure NothingToClaim, calls1)
                   else
                     let calls2 = calls1 @ [SubmitRelease address tokenAddress] in
                     (case release w address tokenAddress of
                        Inl err \<Rightarrow> (Failure (claimVestedTokens_catch err), calls2)
                      | Inr tx \<Rightarrow>
                          let calls3 = calls2 @ [AwaitConfirmation] in
                          (case waitReceipt w of
                             Inl err \<Rightarrow> (Failure (claimVestedTokens_catch err), calls3)
                           | Inr (hash, blockNumber) \<Rightarrow>
                               let calls4 = calls3 @ [ReadBalance tokenAddress address] in
                               (case balanceOf w tokenAddress address of
                                  Inl err \<Rightarrow> (Failure (claimVestedTokens_catch err), calls4)
                                | Inr newBalance \<Rightarrow>
                                    (Success \<lparr>claim_token_address = tokenAddress,
                                              claim_token_name = tokenName,
                                              claim_token_symbol = tokenSymbol,
                                              claimed_rawAmount = releasable,
                                              transaction_hash = hash,
                                              transaction_blockNumber = blockNumber,
                                              newBalance_raw = uint newBalance\<rparr>,
                                     calls4))))))))"

text \<open>
  Second variant, lines 628-765. The releasable amount is computed from the schedule
  (lines 688-702); the three calls of formatAmount come after the transaction is confirmed.
\<close>

definition claimVestedTokens2 ::
  "schedule2 world \<Rightarrow> string \<Rightarrow> string \<Rightarrow> claim_info result \<times> ledger_call list" where
  "claimVestedTokens2 w password tokenAddress =
     (if \<not> hasWallet w then (Failure NoWallet, [])
      else if tokenAddress = [] \<or> \<not> isAddress w tokenAddress
      then (Failure InvalidTokenAddress, [])
      else
        (case getDecryptedWallet w password of
           Inl walletError \<Rightarrow> (Failure (WalletFailure walletError), [])
         | Inr address \<Rightarrow>
            (case (case tokenMetadata w tokenAddress of
                     Some m \<Rightarrow> m
                   | None \<Rightarrow> (''Unknown'', ''UNKNOWN'', DecimalsNumber 18)) of
               (tokenName, tokenSymbol, decimals) \<Rightarrow>
            let calls1 = [ReadTokenMetadata tokenAddress, ReadSchedule address tokenAddress] in
            (case fetchSchedule w address tokenAddress of
               Inl err \<Rightarrow> (Failure (claimVestedTokens_catch err), calls1)
             | Inr (s0, s1, s2, s3) \<Rightarrow>
                 let totalAmount = uint s0;
                     releasedAmount = uint s1;
                     startTime = uint s2;
                     duration = uint s3 in
                 if totalAmount = 0 then (Failure ClaimScheduleNotFound, calls1)
                 else
                   let now = secondsNow w 0 in
                   (case vestedAmount2 totalAmount startTime duration now of
                      Inl err \<Rightarrow> (Failure (claimVestedTokens_catch err), calls1)
                    | Inr vestedAmount \<Rightarrow>
                   let releasable = vestedAmount - releasedAmount in
                   if releasable \<le> 0 then (Failure NothingToClaim, calls1)
                   else
                     let calls2 = calls1 @ [SubmitRelease address tokenAddress] in
                     (case release w address tokenAddress of
                        Inl err \<Rightarrow> (Failure (claimVestedTokens_catch err), calls2)
                      | Inr tx \<Rightarrow>
                          let calls3 = calls2 @ [AwaitConfirmation] in
                          (case waitReceipt w of
                             Inl err \<Rightarrow> (Failure (claimVestedTokens_catch err), calls3)
                           | Inr (hash, blockNumber) \<Rightarrow>
                               let calls4 = calls3 @ [ReadBalance tokenAddress address] in
                               (case balanceOf w tokenAddress address of
                                  Inl err \<Rightarrow> (Failure (claimVestedTokens_catch err), calls4)
                                | Inr newBalance \<Rightarrow>
                               (case formatAmount2 decimals releasable of
                                  Inl err \<Rightarrow> (Failure (claimVestedTokens_catch err), calls4)
                                | Inr f0 \<Rightarrow>
                               (case formatAmount2 decimals releasable of
                                  Inl err \<Rightarrow> (Failure (claimVestedTokens_catch err), calls4)
                                | Inr f1 \<Rightarrow>
                               (case formatAmount2 decimals (uint newBalance) of
                                  Inl err \<Rightarrow> (Failure (claimVestedTokens_catch err), calls4)
                                | Inr f2 \<Rightarrow>
                                    (Success \<lparr>claim_token_address = tokenAddress,
                                              claim_token_name = tokenName,
                                              claim_token_symbol = tokenSymbol,
                                              claimed_rawAmount = releasable,
                                              transaction_hash = hash,
                                              transaction_blockNumber = blockNumber,
                                              newBalance_raw = uint newBalance\<rparr>,
                                     calls4))))))))))))"

section \<open>getAllVestingInfo\<close>

text \<open>
  The argument of getAllVestingInfo: an array of token addresses, or any other value. An
  element that is not a text fails the address check of getVestingInfo like a text that is
  no address.
\<close>

datatype js_value = JsArray "string list" | JsOther

record batch_info =
  schedules :: "vesting_info list"
  totalSchedules :: nat

text \<open>
  Lines 424-430 and 779-785, the same in both variants:
  \<^verbatim>\<open>
    const results = [];
    for (const tokenAddress of tokenAddresses) {
      const result = await getVestingInfo(tokenAddress, rpcUrl);
      if (result.success) { results.push(result); }
    }
  \<close>
  \<open>query i\<close> is getVestingInfo as the \<open>i\<close>-th iteration finds the wallet store, the ledger and
  the clock. The state of the loop is \<open>results\<close> and the addresses queried so far.
\<close>

fun getAllVestingInfo_loop ::
  "(nat \<Rightarrow> string \<Rightarrow> vesting_info result) \<Rightarrow> nat \<Rightarrow> string list
    \<Rightarrow> vesting_info list \<times> string list \<Rightarrow> vesting_info list \<times> string list" where
  "getAllVestingInfo_loop query i [] (results, queried) = (results, queried)"
| "getAllVestingInfo_loop query i (tokenAddress # rest) (results, queried) =
     (case query i tokenAddress of
        Success result \<Rightarrow>
          getAllVestingInfo_loop query (Suc i) rest (results @ [result], queried @ [tokenAddress])
      | Failure e \<Rightarrow>
          getAllVestingInfo_loop query (Suc i) rest (results, queried @ [tokenAddress]))"

text \<open>Lines 413-438 and 771-793.\<close>

definition getAllVestingInfo ::
  "(nat \<Rightarrow> string \<Rightarrow> vesting_info result) \<Rightarrow> js_value \<Rightarrow> batch_info result \<times> string list" where
  "getAllVestingInfo query tokenAddresses =
     (case tokenAddresses of
        JsOther \<Rightarrow> (Failure InvalidInput, [])
      | JsArray addresses \<Rightarrow>
          if length addresses = 0 then (Failure InvalidInput, [])
          else
            (case getAllVestingInfo_loop query 0 addresses ([], []) of
               (results, queried) \<Rightarrow>
                 (Success \<lparr>schedules = results, totalSchedules = length results\<rparr>, queried)))"

definition getAllVestingInfo1 ::
  "(nat \<Rightarrow> schedule1 world) \<Rightarrow> js_value \<Rightarrow> batch_info result \<times> string list" where
  "getAllVestingInfo1 worlds tokenAddresses =
     getAllVestingInfo (\<lambda>i. getVestingInfo1 (worlds i)) tokenAddresses"

definition getAllVestingInfo2 ::
  "(nat \<Rightarrow> schedule2 world) \<Rightarrow> js_value \<Rightarrow> batch_info result \<times> string list" where
  "getAllVestingInfo2 worlds tokenAddresses =
     getAllVestingInfo (\<lambda>i. getVestingInfo2 (worlds i)) tokenAddresses"


text \<open>
  The schedules a batch is to return, in the words of the specification: the successful
  results of the queries, in the order of the addresses.
\<close>

definition surviving_schedules ::
  "(nat \<Rightarrow> string \<Rightarrow> vesting_info result) \<Rightarrow> string list \<Rightarrow> vesting_info list" where
  "surviving_schedules query addresses =
     List.map_filter
       (\<lambda>(i, tokenAddress).
          case query i tokenAddress of Success info \<Rightarrow> Some info | Failure e \<Rightarrow> None)
       (enumerate 0 addresses)"

section \<open>Sample worlds\<close>

text \<open>
  A wallet with three tokens on the first contract: one half vested with 500 base units
  releasable, one whose schedule is empty, one fully claimed; every other token makes the
  contract revert.
\<close>

definition sample_world1 :: "schedule1 world" where
  "sample_world1 =
     \<lparr>getWalletAddress = (True, Some ''0xBeneficiary''),
      hasWallet = True,
      getDecryptedWallet =
        (\<lambda>password. if password = ''secret'' then Inr ''0xBeneficiary''
                     else Inl ''Invalid password''),
      isAddress = (\<lambda>a. take 2 a = ''0x''),
      tokenMetadata = (\<lambda>t. Some (''Vibe'', ''VIBE'', DecimalsBigInt 18)),
      fetchSchedule =
        (\<lambda>b t. if t = ''0xToken'' then Inr (1000, 0, 500, 1700000000, 1700001000)
                else if t = ''0xEmpty'' then Inr (0, 0, 0, 0, 0)
                else if t = ''0xClaimed'' then Inr (1000, 500, 0, 1700000000, 1700001000)
                else Inl (JsError ''Error'' ''execution reverted'')),
      secondsNow = (\<lambda>k. 1700000500),
      release = (\<lambda>b t. Inr ()),
      waitReceipt = Inr (''0xHash'', 1),
      balanceOf = (\<lambda>t a. Inr 500)\<rparr>"

text \<open>
  The same wallet on the second contract, its clock behind the chain: 600 of 1000 base units
  are released already when the local clock stands at half of the duration. The token
  contracts answer no metadata call, so the defaults apply.
\<close>

definition sample_world2 :: "schedule2 world" where
  "sample_world2 =
     \<lparr>getWalletAddress = (True, Some ''0xBeneficiary''),
      hasWallet = True,
      getDecryptedWallet =
        (\<lambda>password. if password = ''secret'' then Inr ''0xBeneficiary''
                     else Inl ''Invalid password''),
      isAddress = (\<lambda>a. take 2 a = ''0x''),
      tokenMetadata = (\<lambda>t. None),
      fetchSchedule =
        (\<lambda>b t. if t = ''0xToken'' then Inr (1000, 600, 1700000000, 1000)
                else if t = ''0xEmpty'' then Inr (0, 0, 0, 0)
                else Inl (JsError ''Error'' ''execution reverted'')),
      secondsNow = (\<lambda>k. 1700000500),
      release = (\<lambda>b t. Inr ()),
      waitReceipt = Inr (''0xHash'', 1),
      balanceOf = (\<lambda>t a. Inr 600)\<rparr>"


section \<open>Truncating division\<close>

lemma truncate_quotient:
  fixes a b :: int
  assumes "b \<noteq> 0"
  shows "truncate_toward_zero (of_int a / of_int b) = sgn a * sgn b * (\<bar>a\<bar> div \<bar>b\<bar>)"
proof -
  consider (z) "a = 0" | (pp) "0 < a" "0 < b" | (nn) "a < 0" "b < 0"
    | (pn) "0 < a" "b < 0" | (np) "a < 0" "0 < b"
    using assms by linarith
  then show ?thesis
  proof cases
    case z
    then show ?thesis by (simp add: truncate_toward_zero_def)
  next
    case pp
    then have "0 \<le> (of_int a :: rat) / of_int b" by simp
    then have "truncate_toward_zero (of_int a / of_int b) = a div b"
      by (simp only: truncate_toward_zero_def if_True floor_divide_of_int_eq)
    with pp show ?thesis by simp
  next
    case nn
    then have "0 \<le> (of_int a :: rat) / of_int b" by (simp add: divide_nonpos_nonpos)
    then have "truncate_toward_zero (of_int a / of_int b) = a div b"
      by (simp only: truncate_toward_zero_def if_True floor_divide_of_int_eq)
    moreover have "\<bar>a\<bar> div \<bar>b\<bar> = a div b" using nn by simp
    ultimately show ?thesis using nn by (simp only: sgn_neg)
  next
    case pn
    then have "(of_int a :: rat) / of_int b < 0" by (simp add: divide_pos_neg)
    then have "truncate_toward_zero (of_int a / of_int b) = \<lceil>(of_int a :: rat) / of_int b\<rceil>"
      by (simp add: truncate_toward_zero_def)
    also have "\<dots> = - \<lfloor>(of_int a :: rat) / of_int (- b)\<rfloor>"
      by (simp add: ceiling_def)
    also have "\<dots> = - (a div (- b))"
      by (simp only: floor_divide_of_int_eq)
    also have "\<dots> = sgn a * sgn b * (\<bar>a\<bar> div \<bar>b\<bar>)" using pn by simp
    finally show ?thesis .
  next
    case np
    then have "(of_int a :: rat) / of_int b < 0" by (simp add: divide_neg_pos)
    then have "truncate_toward_zero (of_int a / of_int b) = \<lceil>(of_int a :: rat) / of_int b\<rceil>"
      by (simp add: truncate_toward_zero_def)
    also have "\<dots> = - \<lfloor>(of_int (- a) :: rat) / of_int b\<rfloor>"
      by (simp add: ceiling_def)
    also have "\<dots> = - ((- a) div b)"
      by (simp only: floor_divide_of_int_eq)
    also have "\<dots> = sgn a * sgn b * (\<bar>a\<bar> div \<bar>b\<bar>)" using np by simp
    finally show ?thesis .
  qed
qed

lemma bigint_div_truncates:
  "b \<noteq> 0 \<Longrightarrow> bigint_div a b = Inr (truncate_toward_zero (of_int a / of_int b))"
  by (simp add: bigint_div_def truncate_quotient)

lemma bigint_div_nonneg:
  "0 \<le> a \<Longrightarrow> 0 < b \<Longrightarrow> bigint_div a b = Inr (a div b)"
  by (simp add: bigint_div_def sgn_if)

section \<open>The model of doubles\<close>





lemma round_half_even_nearest: "\<bar>of_int (round_half_even x) - x\<bar> \<le> 1 / 2"
proof -
  define f where "f = \<lfloor>x\<rfloor>"
  have f: "of_int f \<le> x" "x < of_int f + 1"
    unfolding f_def by linarith+
  have "round_half_even x = f \<and> x - of_int f \<le> 1 / 2
      \<or> round_half_even x = f + 1 \<and> 1 / 2 \<le> x - of_int f"
    unfolding round_half_even_def Let_def f_def by auto
  then show ?thesis
  proof
    assume "round_half_even x = f \<and> x - of_int f \<le> 1 / 2"
    with f show ?thesis by (simp add: abs_if)
  next
    assume "round_half_even x = f + 1 \<and> 1 / 2 \<le> x - of_int f"
    with f show ?thesis by (simp add: abs_if)
  qed
qed


text \<open>\<^const>\<open>to_double\<close> returns a nearest double: it is off by half a unit in the last place at most.\<close>

lemma to_double_nearest:
  assumes "x \<noteq> 0"
  shows "\<bar>to_double x - x\<bar> \<le> 2 powi (max (floor_log2 \<bar>x\<bar>) (- 1022) - 52) / 2"
proof -
  define u :: rat where "u = 2 powi (max (floor_log2 \<bar>x\<bar>) (- 1022) - 52)"
  have u: "0 < u" by (simp add: u_def)
  have t: "to_double x = of_int (round_half_even (x / u)) * u"
    using assms by (simp add: to_double_def Let_def u_def)
  have "to_double x - x = (of_int (round_half_even (x / u)) - x / u) * u"
    using u by (simp add: t field_simps)
  then have "\<bar>to_double x - x\<bar> = \<bar>of_int (round_half_even (x / u)) - x / u\<bar> * u"
    using u by (simp add: abs_mult)
  also have "\<dots> \<le> (1 / 2) * u"
    using round_half_even_nearest [of "x / u"] u by (intro mult_right_mono) simp_all
  finally show ?thesis by (simp add: u_def)
qed


section \<open>Facts on the vested amount\<close>

lemma vesting_quotient_mono:
  fixes t d x y :: int
  assumes "0 \<le> t" "0 < d" "x \<le> y"
  shows "(t * x) div d \<le> (t * y) div d"
proof -
  have "t * x \<le> t * y" using assms by (simp add: mult_left_mono)
  then show ?thesis using \<open>0 < d\<close> by (rule zdiv_mono1)
qed

lemma vesting_quotient_le_total:
  fixes t d x :: int
  assumes "0 \<le> t" "0 < d" "x \<le> d"
  shows "(t * x) div d \<le> t"
proof -
  have "(t * x) div d \<le> (t * d) div d" using assms by (rule vesting_quotient_mono)
  then show ?thesis using \<open>0 < d\<close> by simp
qed

lemma vesting_quotient_nonneg:
  fixes t d x :: int
  assumes "0 \<le> t" "0 < d" "0 \<le> x"
  shows "0 \<le> (t * x) div d"
  using assms by (simp add: pos_imp_zdiv_nonneg_iff)

lemma vestedAmount1_value:
  "vestedAmount1 t s e now =
     Inr (if e \<le> now then t else if now \<le> s then 0
          else sgn (t * (now - s)) * (\<bar>t * (now - s)\<bar> div (e - s)))"
  by (simp add: vestedAmount1_def bigint_div_def Let_def sgn_if)

lemma vestedAmount2_eq_vestedAmount1:
  "vestedAmount2 t s d now = vestedAmount1 t s (s + d) now"
  by (simp add: vestedAmount1_def vestedAmount2_def Let_def)

lemma vestedAmount1_nonneg_total:
  assumes "0 \<le> t"
  shows "vestedAmount1 t s e now =
     Inr (if e \<le> now then t else if now \<le> s then 0 else (t * (now - s)) div (e - s))"
  using assms by (simp add: vestedAmount1_def bigint_div_nonneg Let_def)

lemma vestedAmount1_mono:
  assumes "0 \<le> t" "now1 \<le> now2"
  shows "\<exists>v1 v2. vestedAmount1 t s e now1 = Inr v1 \<and> vestedAmount1 t s e now2 = Inr v2 \<and> v1 \<le> v2"
proof -
  let ?v = "\<lambda>now. if e \<le> now then t else if now \<le> s then 0 else (t * (now - s)) div (e - s)"
  have "?v now1 \<le> ?v now2"
  proof (cases "e \<le> now2")
    case True
    then show ?thesis
      using assms vesting_quotient_le_total [of t "e - s" "now1 - s"] by auto
  next
    case False
    then show ?thesis
      using assms vesting_quotient_nonneg [of t "e - s" "now2 - s"]
        vesting_quotient_mono [of t "e - s" "now1 - s" "now2 - s"] by auto
  qed
  then show ?thesis
    using vestedAmount1_nonneg_total [OF assms(1)] by blast
qed


lemma vestedAmount1_never_throws: "vestedAmount1 t s e now \<noteq> Inl err"
  by (simp add: vestedAmount1_value)

section \<open>Claims on the vested amount\<close>

text \<open>
  C1, as stated, fails on a zero-duration schedule at its own start: the claim asks for 0
  (\<open>now \<le> startTime\<close>) and for \<open>totalAmount\<close> (\<open>now \<ge> endTime\<close>) at once, and the code
  tests \<open>now \<ge> endTime\<close> first.
\<close>

theorem vested_at_start_of_zero_duration:
  "(100::int) \<le> 100 \<and> vestedAmount1 1000 100 100 100 = Inr 1000
     \<and> vestedAmount2 1000 100 0 100 = Inr 1000
     \<and> vestedAmount1 1000 100 100 100 \<noteq> Inr 0"
  by (simp add: vestedAmount1_def vestedAmount2_def)

text \<open>
  C1 (amended): for every schedule with \<open>endTime \<ge> startTime\<close> and every instant \<open>now\<close>, the
  vested amount is \<open>totalAmount\<close> when \<open>now \<ge> endTime\<close>; 0 when \<open>now \<le> startTime\<close> and
  \<open>now < endTime\<close>; and otherwise the exact quotient
  \<open>totalAmount * (now - startTime) / (endTime - startTime)\<close> truncated toward zero, on unbounded
  integers. The second variant, whose schedule holds the duration \<open>endTime - startTime\<close>,
  computes the same value.
\<close>

theorem vestedAmount_phases:
  assumes "startTime \<le> endTime"
  shows "(endTime \<le> now \<longrightarrow> vestedAmount1 t startTime endTime now = Inr t)
       \<and> (now \<le> startTime \<and> now < endTime \<longrightarrow> vestedAmount1 t startTime endTime now = Inr 0)
       \<and> (startTime < now \<and> now < endTime \<longrightarrow>
            vestedAmount1 t startTime endTime now =
              Inr (truncate_toward_zero
                     (of_int (t * (now - startTime)) / of_int (endTime - startTime))))
       \<and> vestedAmount2 t startTime (endTime - startTime) now = vestedAmount1 t startTime endTime now"
  by (simp add: vestedAmount1_def vestedAmount2_def Let_def bigint_div_truncates)

theorem vestedAmount_phases_witness:
  "(0::int) \<le> 1000
     \<and> vestedAmount1 1000 0 1000 1000 = Inr 1000
     \<and> vestedAmount1 1000 0 1000 0 = Inr 0
     \<and> vestedAmount1 1000 0 1000 500 = Inr (truncate_toward_zero (500000 / 1000))
     \<and> vestedAmount2 1000 0 1000 500 = vestedAmount1 1000 0 1000 500"
  using vestedAmount_phases [of 0 1000 1000 1000] vestedAmount_phases [of 0 1000 0 1000]
    vestedAmount_phases [of 0 1000 500 1000]
  by simp

text \<open>
  C2, as stated, fails at \<open>vested(startTime) = 0\<close> on a zero-duration schedule, where
  \<open>startTime = endTime\<close> and the code answers \<open>totalAmount\<close>.
\<close>

theorem vested_start_not_zero:
  "(7::int) \<le> 7 \<and> vestedAmount1 5 7 7 7 = Inr 5 \<and> vestedAmount2 5 7 0 7 = Inr 5 \<and> (5::int) \<noteq> 0"
  by (simp add: vestedAmount1_def vestedAmount2_def)

text \<open>
  C2 (amended): for every schedule (its \<open>totalAmount\<close> an unsigned integer) with
  \<open>endTime \<ge> startTime\<close>, the vested amount is monotonically non-decreasing in \<open>now\<close>,
  \<open>vested(endTime) = totalAmount\<close>, and \<open>vested(startTime) = 0\<close> when \<open>endTime > startTime\<close>
  (it is \<open>totalAmount\<close> when \<open>endTime = startTime\<close>); in both variants.
\<close>

theorem vestedAmount_monotone:
  assumes "0 \<le> t" and "s \<le> e" and "now1 \<le> now2"
  shows "(\<exists>v1 v2. vestedAmount1 t s e now1 = Inr v1 \<and> vestedAmount1 t s e now2 = Inr v2 \<and> v1 \<le> v2)
       \<and> (\<exists>v1 v2. vestedAmount2 t s (e - s) now1 = Inr v1
                  \<and> vestedAmount2 t s (e - s) now2 = Inr v2 \<and> v1 \<le> v2)
       \<and> vestedAmount1 t s e e = Inr t \<and> vestedAmount2 t s (e - s) e = Inr t
       \<and> (s < e \<longrightarrow> vestedAmount1 t s e s = Inr 0 \<and> vestedAmount2 t s (e - s) s = Inr 0)
       \<and> (s = e \<longrightarrow> vestedAmount1 t s e s = Inr t \<and> vestedAmount2 t s (e - s) s = Inr t)"
proof -
  have m: "\<exists>v1 v2. vestedAmount1 t s e now1 = Inr v1 \<and> vestedAmount1 t s e now2 = Inr v2 \<and> v1 \<le> v2"
    using assms(1,3) by (rule vestedAmount1_mono)
  have eq: "vestedAmount2 t s (e - s) n = vestedAmount1 t s e n" for n
    by (simp add: vestedAmount2_eq_vestedAmount1)
  have ends: "vestedAmount1 t s e e = Inr t" "s < e \<longrightarrow> vestedAmount1 t s e s = Inr 0"
    "s = e \<longrightarrow> vestedAmount1 t s e s = Inr t"
    by (simp_all add: vestedAmount1_def)
  show ?thesis using m ends by (simp only: eq) simp
qed

theorem vestedAmount_monotone_witness:
  "(0::int) \<le> 1000 \<and> (0::int) \<le> 1000 \<and> (333::int) \<le> 334
     \<and> (\<exists>v1 v2. vestedAmount1 1000 0 1000 333 = Inr v1 \<and> vestedAmount1 1000 0 1000 334 = Inr v2
                \<and> v1 \<le> v2)
     \<and> vestedAmount1 1000 0 1000 1000 = Inr 1000 \<and> vestedAmount1 1000 0 1000 0 = Inr 0"
  using vestedAmount_monotone [of 1000 0 1000 333 334] by simp

text \<open>
  C4: on a zero-duration schedule (\<open>startTime = endTime\<close>; in the second variant
  \<open>duration = 0\<close>) the computation throws nothing at any \<open>now\<close>, so the division, the only
  operation that can throw, is not reached with its zero divisor; the vested amount is
  \<open>totalAmount\<close> for every \<open>now \<ge> startTime\<close> and 0 before.
\<close>

theorem zero_duration_fully_vested:
  "(\<forall>err. vestedAmount1 t s s now \<noteq> Inl err) \<and> (\<forall>err. vestedAmount2 t s 0 now \<noteq> Inl err)
     \<and> (s \<le> now \<longrightarrow> vestedAmount1 t s s now = Inr t \<and> vestedAmount2 t s 0 now = Inr t)
     \<and> (now < s \<longrightarrow> vestedAmount1 t s s now = Inr 0 \<and> vestedAmount2 t s 0 now = Inr 0)"
  by (simp add: vestedAmount1_def vestedAmount2_def)

theorem zero_duration_fully_vested_witness:
  "(50::int) \<le> 50 \<and> vestedAmount1 1000 50 50 50 = Inr 1000 \<and> vestedAmount2 1000 50 0 50 = Inr 1000
     \<and> (50::int) \<le> 60 \<and> vestedAmount1 1000 50 50 60 = Inr 1000
     \<and> (40::int) < 50 \<and> vestedAmount1 1000 50 50 40 = Inr 0"
  using zero_duration_fully_vested [of 1000 50 50] zero_duration_fully_vested [of 1000 50 60]
    zero_duration_fully_vested [of 1000 50 40]
  by simp

section \<open>The releasable amount\<close>












section \<open>Decimal texts\<close>
















section \<open>The progress percentage\<close>

text \<open>
  C6 fails on the code: 29 seconds into a schedule of 100 seconds the quotient \<open>29 / 100\<close> is
  rounded to a double below \<open>0.29\<close>, its product with 100 is rounded to
  \<open>28.999999999999996\<close>, and the percentage reported is 28, where the exact floor of
  \<open>100 * 29 / 100\<close> is 29. In both variants.
\<close>

theorem progress_29_of_100_is_28:
  "vestingProgress1 1700000029 1700000000 1700000100 = Some 28
   \<and> vestingProgress2 1700000029 1700000000 100 = Some 28
   \<and> \<lfloor>(100 * (1700000029 - 1700000000) :: rat) / (1700000100 - 1700000000)\<rfloor> = (29::int)
   \<and> js_divide 29 100 = Some (5224175567749775 / 2 ^ 54)
   \<and> js_mul (5224175567749775 / 2 ^ 54) 100 = 8162774324609023 / 2 ^ 48"
  by code_simp

section \<open>Failures of getVestingInfo\<close>

lemma getVestingInfo1_total_nonzero:
  "getVestingInfo1 w tokenAddress = Success info \<Longrightarrow> raw_totalAmount info \<noteq> 0"
  by (auto simp: getVestingInfo1_def Let_def
      split: prod.splits option.splits sum.splits if_splits)

lemma getVestingInfo2_total_nonzero:
  "getVestingInfo2 w tokenAddress = Success info \<Longrightarrow> raw_totalAmount info \<noteq> 0"
  by (auto simp: getVestingInfo2_def Let_def
      split: prod.splits option.splits sum.splits if_splits)

text \<open>
  C7: when the wallet resolves, the token address is valid and the schedule fetched for the
  pair has \<open>totalAmount = 0\<close>, getVestingInfo returns the schedule-not-found failure, in both
  variants; and no successful result of getVestingInfo carries a total of zero.
\<close>

theorem zero_total_is_ScheduleNotFound:
  "(getWalletAddress w1 = (True, Some b1) \<and> b1 \<noteq> [] \<and> t1 \<noteq> [] \<and> isAddress w1 t1
      \<and> fetchSchedule w1 b1 t1 = Inr (0, released1, releasable1, start1, end1)
      \<longrightarrow> getVestingInfo1 w1 t1 = Failure ScheduleNotFound)
   \<and> (getWalletAddress w2 = (True, Some b2) \<and> b2 \<noteq> [] \<and> t2 \<noteq> [] \<and> isAddress w2 t2
      \<and> fetchSchedule w2 b2 t2 = Inr (0, released2, start2, duration2)
      \<longrightarrow> getVestingInfo2 w2 t2 = Failure ScheduleNotFound)
   \<and> (\<forall>info. getVestingInfo1 w1 t1 = Success info \<longrightarrow> raw_totalAmount info \<noteq> 0)
   \<and> (\<forall>info. getVestingInfo2 w2 t2 = Success info \<longrightarrow> raw_totalAmount info \<noteq> 0)
   \<and> error_text ScheduleNotFound =
       ''No vesting schedule found for this token. The vesting schedule may not have been created yet.''"
proof -
  have "getVestingInfo1 w1 t1 = Failure ScheduleNotFound"
    if "getWalletAddress w1 = (True, Some b1)" "b1 \<noteq> []" "t1 \<noteq> []" "isAddress w1 t1"
      "fetchSchedule w1 b1 t1 = Inr (0, released1, releasable1, start1, end1)"
    using that by (simp add: getVestingInfo1_def split: prod.splits option.splits)
  moreover have "getVestingInfo2 w2 t2 = Failure ScheduleNotFound"
    if "getWalletAddress w2 = (True, Some b2)" "b2 \<noteq> []" "t2 \<noteq> []" "isAddress w2 t2"
      "fetchSchedule w2 b2 t2 = Inr (0, released2, start2, duration2)"
    using that by (simp add: getVestingInfo2_def split: prod.splits option.splits)
  ultimately show ?thesis
    using getVestingInfo1_total_nonzero getVestingInfo2_total_nonzero by auto
qed


theorem zero_total_is_ScheduleNotFound_witness:
  "getWalletAddress sample_world1 = (True, Some ''0xBeneficiary'')
   \<and> isAddress sample_world1 ''0xEmpty''
   \<and> fetchSchedule sample_world1 ''0xBeneficiary'' ''0xEmpty'' = Inr (0, 0, 0, 0, 0)
   \<and> getVestingInfo1 sample_world1 ''0xEmpty'' = Failure ScheduleNotFound
   \<and> getWalletAddress sample_world2 = (True, Some ''0xBeneficiary'')
   \<and> isAddress sample_world2 ''0xEmpty''
   \<and> fetchSchedule sample_world2 ''0xBeneficiary'' ''0xEmpty'' = Inr (0, 0, 0, 0)
   \<and> getVestingInfo2 sample_world2 ''0xEmpty'' = Failure ScheduleNotFound"
  using zero_total_is_ScheduleNotFound
    [where ?w1.0 = sample_world1 and ?b1.0 = "''0xBeneficiary''" and ?t1.0 = "''0xEmpty''"
       and ?released1.0 = 0 and ?releasable1.0 = 0 and ?start1.0 = 0 and ?end1.0 = 0
       and ?w2.0 = sample_world2 and ?b2.0 = "''0xBeneficiary''" and ?t2.0 = "''0xEmpty''"
       and ?released2.0 = 0 and ?start2.0 = 0 and ?duration2.0 = 0]
  by (simp add: sample_world1_def sample_world2_def)

section \<open>Claims that have nothing to release\<close>

text \<open>
  C8: when a claim gets as far as the schedule (a wallet exists, the token address is valid,
  the password unlocks the wallet, the schedule is fetched and its total is not zero) and the
  releasable amount is \<open>\<le> 0\<close>, claimVestedTokens returns the nothing-to-claim failure and the
  calls it has made on the ledger hold no release; the releasable amount is the one the
  contract reports in the first variant and \<open>vested - released\<close> in the second.
\<close>

theorem nothing_to_claim_submits_nothing:
  "(hasWallet w1 \<and> t1 \<noteq> [] \<and> isAddress w1 t1 \<and> getDecryptedWallet w1 p1 = Inr a1
      \<and> fetchSchedule w1 a1 t1 = Inr (total1, released1, releasable1, start1, end1)
      \<and> total1 \<noteq> 0 \<and> uint releasable1 \<le> 0
      \<longrightarrow> fst (claimVestedTokens1 w1 p1 t1) = Failure NothingToClaim
          \<and> (\<forall>b t. SubmitRelease b t \<notin> set (snd (claimVestedTokens1 w1 p1 t1))))
   \<and> (hasWallet w2 \<and> t2 \<noteq> [] \<and> isAddress w2 t2 \<and> getDecryptedWallet w2 p2 = Inr a2
      \<and> fetchSchedule w2 a2 t2 = Inr (total2, released2, start2, duration2)
      \<and> total2 \<noteq> 0
      \<and> vestedAmount2 (uint total2) (uint start2) (uint duration2) (secondsNow w2 0) = Inr vested
      \<and> vested - uint released2 \<le> 0
      \<longrightarrow> fst (claimVestedTokens2 w2 p2 t2) = Failure NothingToClaim
          \<and> (\<forall>b t. SubmitRelease b t \<notin> set (snd (claimVestedTokens2 w2 p2 t2))))
   \<and> error_text NothingToClaim =
       ''No tokens available to claim. All vested tokens have already been claimed.''"
proof -
  have "claimVestedTokens1 w1 p1 t1 =
          (Failure NothingToClaim, [ReadTokenMetadata t1, ReadSchedule a1 t1])"
    if "hasWallet w1" "t1 \<noteq> []" "isAddress w1 t1" "getDecryptedWallet w1 p1 = Inr a1"
      "fetchSchedule w1 a1 t1 = Inr (total1, released1, releasable1, start1, end1)"
      "total1 \<noteq> 0" "uint releasable1 \<le> 0"
    using that by (simp add: claimVestedTokens1_def Let_def unsigned_eq_0_iff split: prod.splits option.splits)
  moreover have "claimVestedTokens2 w2 p2 t2 =
          (Failure NothingToClaim, [ReadTokenMetadata t2, ReadSchedule a2 t2])"
    if "hasWallet w2" "t2 \<noteq> []" "isAddress w2 t2" "getDecryptedWallet w2 p2 = Inr a2"
      "fetchSchedule w2 a2 t2 = Inr (total2, released2, start2, duration2)"
      "total2 \<noteq> 0"
      "vestedAmount2 (uint total2) (uint start2) (uint duration2) (secondsNow w2 0) = Inr vested"
      "vested - uint released2 \<le> 0"
    using that by (simp add: claimVestedTokens2_def Let_def unsigned_eq_0_iff split: prod.splits option.splits)
  ultimately show ?thesis by auto
qed

theorem nothing_to_claim_submits_nothing_witness:
  "hasWallet sample_world1 \<and> isAddress sample_world1 ''0xClaimed''
   \<and> getDecryptedWallet sample_world1 ''secret'' = Inr ''0xBeneficiary''
   \<and> fetchSchedule sample_world1 ''0xBeneficiary'' ''0xClaimed''
        = Inr (1000, 500, 0, 1700000000, 1700001000)
   \<and> fst (claimVestedTokens1 sample_world1 ''secret'' ''0xClaimed'') = Failure NothingToClaim
   \<and> (\<forall>b t. SubmitRelease b t \<notin> set (snd (claimVestedTokens1 sample_world1 ''secret'' ''0xClaimed'')))
   \<and> hasWallet sample_world2 \<and> isAddress sample_world2 ''0xToken''
   \<and> getDecryptedWallet sample_world2 ''secret'' = Inr ''0xBeneficiary''
   \<and> fetchSchedule sample_world2 ''0xBeneficiary'' ''0xToken'' = Inr (1000, 600, 1700000000, 1000)
   \<and> vestedAmount2 1000 1700000000 1000 1700000500 = Inr 500
   \<and> fst (claimVestedTokens2 sample_world2 ''secret'' ''0xToken'') = Failure NothingToClaim
   \<and> (\<forall>b t. SubmitRelease b t \<notin> set (snd (claimVestedTokens2 sample_world2 ''secret'' ''0xToken'')))"
proof -
  have v: "vestedAmount2 1000 1700000000 1000 1700000500 = Inr 500"
    by (simp add: vestedAmount2_def bigint_div_def)
  show ?thesis
    using nothing_to_claim_submits_nothing
      [where ?w1.0 = sample_world1 and ?p1.0 = "''secret''" and ?t1.0 = "''0xClaimed''"
         and ?a1.0 = "''0xBeneficiary''" and ?total1.0 = 1000 and ?released1.0 = 500
         and ?releasable1.0 = 0 and ?start1.0 = 1700000000 and ?end1.0 = 1700001000
         and ?w2.0 = sample_world2 and ?p2.0 = "''secret''" and ?t2.0 = "''0xToken''"
         and ?a2.0 = "''0xBeneficiary''" and ?total2.0 = 1000 and ?released2.0 = 600
         and ?start2.0 = 1700000000 and ?duration2.0 = 1000 and ?vested = 500]
      v
    by (simp add: sample_world1_def sample_world2_def)
qed

section \<open>Batches\<close>

lemma map_filter_append:
  "List.map_filter f (xs @ ys) = List.map_filter f xs @ List.map_filter f ys"
  by (simp add: List.map_filter_def)

lemma getAllVestingInfo_loop_eq:
  "getAllVestingInfo_loop query i addresses (results, queried) =
     (results @ List.map_filter
        (\<lambda>(i, tokenAddress).
           case query i tokenAddress of Success info \<Rightarrow> Some info | Failure e \<Rightarrow> None)
        (enumerate i addresses),
      queried @ addresses)"
proof (induction addresses arbitrary: i results queried)
  case Nil
  then show ?case by (simp add: List.map_filter_def)
next
  case (Cons tokenAddress rest)
  show ?case
  proof (cases "query i tokenAddress")
    case (Failure e)
    then show ?thesis using Cons.IH by (simp add: List.map_filter_def)
  next
    case (Success info)
    then show ?thesis using Cons.IH by (simp add: List.map_filter_def)
  qed
qed

lemma getAllVestingInfo_array:
  assumes "addresses \<noteq> []"
  shows "getAllVestingInfo query (JsArray addresses) =
     (Success \<lparr>schedules = surviving_schedules query addresses,
               totalSchedules = length (surviving_schedules query addresses)\<rparr>,
      addresses)"
  using assms
  by (simp add: getAllVestingInfo_def getAllVestingInfo_loop_eq surviving_schedules_def)

lemma surviving_schedules_all_failed:
  assumes "\<forall>i<length addresses. \<exists>e. query i (addresses ! i) = Failure e"
  shows "surviving_schedules query addresses = []"
proof -
  have "(case query i a of Success info \<Rightarrow> Some info | Failure e \<Rightarrow> None) = None"
    if "(i, a) \<in> set (enumerate 0 addresses)" for i a
  proof -
    from that have "i < length addresses" "addresses ! i = a"
      by (simp_all add: in_set_enumerate_eq)
    with assms obtain e where "query i a = Failure e" by blast
    then show ?thesis by simp
  qed
  then show ?thesis
    by (auto simp: surviving_schedules_def List.map_filter_def filter_empty_conv)
qed

text \<open>
  C9: getAllVestingInfo returns the invalid-input failure, without a query, when its argument
  is no array or an empty one. On a non-empty array it queries every address once, in the
  order given, through getVestingInfo, and returns with \<open>success\<close> the results that
  succeeded, in that order, and their number: a query that fails is left out and the batch
  goes on. In both variants.
\<close>

theorem getAllVestingInfo_best_effort:
  "getAllVestingInfo1 worlds1 JsOther = (Failure InvalidInput, [])
   \<and> getAllVestingInfo1 worlds1 (JsArray []) = (Failure InvalidInput, [])
   \<and> getAllVestingInfo2 worlds2 JsOther = (Failure InvalidInput, [])
   \<and> getAllVestingInfo2 worlds2 (JsArray []) = (Failure InvalidInput, [])
   \<and> error_text InvalidInput = ''Token addresses array is required''
   \<and> (addresses \<noteq> [] \<longrightarrow>
        getAllVestingInfo1 worlds1 (JsArray addresses) =
          (Success
             \<lparr>schedules = surviving_schedules (\<lambda>i. getVestingInfo1 (worlds1 i)) addresses,
              totalSchedules =
                length (surviving_schedules (\<lambda>i. getVestingInfo1 (worlds1 i)) addresses)\<rparr>,
           addresses)
      \<and> getAllVestingInfo2 worlds2 (JsArray addresses) =
          (Success
             \<lparr>schedules = surviving_schedules (\<lambda>i. getVestingInfo2 (worlds2 i)) addresses,
              totalSchedules =
                length (surviving_schedules (\<lambda>i. getVestingInfo2 (worlds2 i)) addresses)\<rparr>,
           addresses))"
  by (simp add: getAllVestingInfo1_def getAllVestingInfo2_def getAllVestingInfo_array)
    (simp add: getAllVestingInfo_def)


theorem getAllVestingInfo_best_effort_witness:
  "[''0xOther'', ''0xToken'', ''0xEmpty''] \<noteq> []
   \<and> getAllVestingInfo1 (\<lambda>i. sample_world1) (JsArray [''0xOther'', ''0xToken'', ''0xEmpty'']) =
       (Success
          \<lparr>schedules =
             [\<lparr>token_address = ''0xToken'', token_name = ''Vibe'', token_symbol = ''VIBE'',
               token_decimals = 18, info_beneficiary = ''0xBeneficiary'', progress = Some 50,
               startTime_ms = 1700000000000, endTime_ms = 1700001000000,
               raw_totalAmount = 1000, raw_releasedAmount = 0, raw_releasableAmount = 500,
               raw_lockedAmount = 500\<rparr>],
           totalSchedules = 1\<rparr>,
        [''0xOther'', ''0xToken'', ''0xEmpty''])
   \<and> getAllVestingInfo2 (\<lambda>i. sample_world2) (JsArray [''0xOther'', ''0xToken'', ''0xEmpty'']) =
       (Success
          \<lparr>schedules =
             [\<lparr>token_address = ''0xToken'', token_name = ''Unknown'', token_symbol = ''UNKNOWN'',
               token_decimals = 18, info_beneficiary = ''0xBeneficiary'', progress = Some 50,
               startTime_ms = 1700000000000, endTime_ms = 1700001000000,
               raw_totalAmount = 1000, raw_releasedAmount = 600, raw_releasableAmount = - 100,
               raw_lockedAmount = 500\<rparr>],
           totalSchedules = 1\<rparr>,
        [''0xOther'', ''0xToken'', ''0xEmpty''])"
proof -
  have s1: "surviving_schedules (\<lambda>i. getVestingInfo1 sample_world1)
              [''0xOther'', ''0xToken'', ''0xEmpty''] =
             [\<lparr>token_address = ''0xToken'', token_name = ''Vibe'', token_symbol = ''VIBE'',
               token_decimals = 18, info_beneficiary = ''0xBeneficiary'', progress = Some 50,
               startTime_ms = 1700000000000, endTime_ms = 1700001000000,
               raw_totalAmount = 1000, raw_releasedAmount = 0, raw_releasableAmount = 500,
               raw_lockedAmount = 500\<rparr>]"
    by code_simp
  have s2: "surviving_schedules (\<lambda>i. getVestingInfo2 sample_world2)
              [''0xOther'', ''0xToken'', ''0xEmpty''] =
             [\<lparr>token_address = ''0xToken'', token_name = ''Unknown'', token_symbol = ''UNKNOWN'',
               token_decimals = 18, info_beneficiary = ''0xBeneficiary'', progress = Some 50,
               startTime_ms = 1700000000000, endTime_ms = 1700001000000,
               raw_totalAmount = 1000, raw_releasedAmount = 600, raw_releasableAmount = - 100,
               raw_lockedAmount = 500\<rparr>]"
    by code_simp
  show ?thesis
    using getAllVestingInfo_best_effort
      [where ?worlds1.0 = "\<lambda>i. sample_world1" and ?worlds2.0 = "\<lambda>i. sample_world2"
         and addresses = "[''0xOther'', ''0xToken'', ''0xEmpty'']"]
    by (simp add: s1 s2)
qed

text \<open>
  C10: on a non-empty array getAllVestingInfo returns \<open>success\<close> whatever the queries
  return; when every query fails, the result is \<open>success\<close> with no schedule and
  \<open>totalSchedules = 0\<close>, whatever the failures were. In both variants.
\<close>

theorem batch_of_failures_is_success:
  "addresses \<noteq> [] \<longrightarrow>
     (\<exists>info. fst (getAllVestingInfo1 worlds1 (JsArray addresses)) = Success info)
   \<and> (\<exists>info. fst (getAllVestingInfo2 worlds2 (JsArray addresses)) = Success info)
   \<and> ((\<forall>i<length addresses. \<exists>e. getVestingInfo1 (worlds1 i) (addresses ! i) = Failure e)
        \<longrightarrow> fst (getAllVestingInfo1 worlds1 (JsArray addresses)) =
              Success \<lparr>schedules = [], totalSchedules = 0\<rparr>)
   \<and> ((\<forall>i<length addresses. \<exists>e. getVestingInfo2 (worlds2 i) (addresses ! i) = Failure e)
        \<longrightarrow> fst (getAllVestingInfo2 worlds2 (JsArray addresses)) =
              Success \<lparr>schedules = [], totalSchedules = 0\<rparr>)"
  by (simp add: getAllVestingInfo1_def getAllVestingInfo2_def getAllVestingInfo_array
      surviving_schedules_all_failed)

theorem batch_of_failures_is_success_witness:
  "[''0xOther'', ''0xEmpty'', ''nonsense''] \<noteq> []
   \<and> getVestingInfo1 sample_world1 ''0xOther'' = Failure (ScheduleFetchFailed ''execution reverted'')
   \<and> getVestingInfo1 sample_world1 ''0xEmpty'' = Failure ScheduleNotFound
   \<and> getVestingInfo1 sample_world1 ''nonsense'' = Failure InvalidTokenAddress
   \<and> fst (getAllVestingInfo1 (\<lambda>i. sample_world1) (JsArray [''0xOther'', ''0xEmpty'', ''nonsense''])) =
       Success \<lparr>schedules = [], totalSchedules = 0\<rparr>
   \<and> getVestingInfo2 sample_world2 ''0xOther'' = Failure NoScheduleForPair
   \<and> getVestingInfo2 sample_world2 ''0xEmpty'' = Failure ScheduleNotFound
   \<and> getVestingInfo2 sample_world2 ''nonsense'' = Failure InvalidTokenAddress
   \<and> fst (getAllVestingInfo2 (\<lambda>i. sample_world2) (JsArray [''0xOther'', ''0xEmpty'', ''nonsense''])) =
       Success \<lparr>schedules = [], totalSchedules = 0\<rparr>"
proof -
  have f1: "getVestingInfo1 sample_world1 ''0xOther'' = Failure (ScheduleFetchFailed ''execution reverted'')"
    "getVestingInfo1 sample_world1 ''0xEmpty'' = Failure ScheduleNotFound"
    "getVestingInfo1 sample_world1 ''nonsense'' = Failure InvalidTokenAddress"
    by code_simp+
  have f2: "getVestingInfo2 sample_world2 ''0xOther'' = Failure NoScheduleForPair"
    "getVestingInfo2 sample_world2 ''0xEmpty'' = Failure ScheduleNotFound"
    "getVestingInfo2 sample_world2 ''nonsense'' = Failure InvalidTokenAddress"
    by code_simp+
  have h1: "\<forall>i<length [''0xOther'', ''0xEmpty'', ''nonsense''].
      \<exists>e. getVestingInfo1 sample_world1 ([''0xOther'', ''0xEmpty'', ''nonsense''] ! i) = Failure e"
    using f1 by (auto simp: less_Suc_eq)
  have h2: "\<forall>i<length [''0xOther'', ''0xEmpty'', ''nonsense''].
      \<exists>e. getVestingInfo2 sample_world2 ([''0xOther'', ''0xEmpty'', ''nonsense''] ! i) = Failure e"
    using f2 by (auto simp: less_Suc_eq)
  show ?thesis
    using batch_of_failures_is_success
      [where ?worlds1.0 = "\<lambda>i. sample_world1" and ?worlds2.0 = "\<lambda>i. sample_world2"
         and addresses = "[''0xOther'', ''0xEmpty'', ''nonsense'']"]
      h1 h2 f1 f2
    by simp
qed

end
